theory Spec2Isabelle
  imports Complex_Main
begin

section \<open>Data model\<close>

text \<open>
  The repository holds three revisions of one signalling server:
  \<^item> \<^verbatim>\<open>src/app.ts\<close>: rooms and signal relay only;
  \<^item> \<^verbatim>\<open>src/unnamed/part_000\<close>, lines 1-234: rooms, relay, pairing codes, and a
    disconnect handler that deletes a room once it is empty;
  \<^item> \<^verbatim>\<open>src/unnamed/part_000\<close>, lines 235-434: rooms, relay, pairing codes, and a
    disconnect handler that leaves the room entry in place.
  The \<^verbatim>\<open>join\<close>, \<^verbatim>\<open>signal\<close> and \<^verbatim>\<open>ping\<close> cases of \<^verbatim>\<open>message\<close> and the \<^verbatim>\<open>open\<close> callback have the
  same text in all three (up to \<^verbatim>\<open>console.log\<close>, which touches no state and is left out);
  the two handshake cases have the same text in both units of \<^verbatim>\<open>part_000\<close>.

  A \<^verbatim>\<open>ServerWebSocket\<close> object is a handle; its \<^verbatim>\<open>data\<close> field (the \<^verbatim>\<open>ServerPeer\<close>) lives in
  a store indexed by the handle, since the three module-level maps hold references to the
  socket objects and a socket's data stays readable after the socket has closed.
  A JavaScript \<^verbatim>\<open>Set<string>\<close> is a list without duplicates in insertion order, which is
  the order \<^verbatim>\<open>Array.from\<close> reads it in.
\<close>

type_synonym ws = nat

record ServerPeer =
  peer_id :: string
  rooms :: "string list"
  lastPing :: nat
  code :: "int option"

datatype PeerMessage =
    Init string
  | Join string
  | Joined "string list"
  | Signal string string string string
  | Ping
  | HandshakeBegin
  | HandshakeResponse string int
  | HandshakeJoin int
  | HandshakeComplete string string
  | Unknown string

text \<open>
  The calls a handler makes on the runtime: \<^verbatim>\<open>ws.send\<close>, \<^verbatim>\<open>server.publish\<close> and
  \<^verbatim>\<open>ws.close(undefined, reason)\<close>, in the order they are made.
\<close>

datatype action =
    Send ws PeerMessage
  | Publish string PeerMessage
  | WsClose ws string

record server =
  data :: "ws \<Rightarrow> ServerPeer"
  topics :: "ws \<Rightarrow> string set"
  peerById :: "string \<rightharpoonup> ws"
  peersByRoom :: "string \<rightharpoonup> string list"
  peerByHandshake :: "int \<rightharpoonup> ws"

definition no_peer :: ServerPeer where
  "no_peer = \<lparr>peer_id = [], rooms = [], lastPing = 0, code = None\<rparr>"

definition init_server :: server where
  "init_server =
     \<lparr>data = (\<lambda>_. no_peer), topics = (\<lambda>_. {}), peerById = Map.empty,
      peersByRoom = Map.empty, peerByHandshake = Map.empty\<rparr>"

subsection \<open>Sets in insertion order\<close>

definition set_add :: "'a \<Rightarrow> 'a list \<Rightarrow> 'a list" where
  "set_add x xs = (if x \<in> set xs then xs else xs @ [x])"

definition set_delete :: "'a \<Rightarrow> 'a list \<Rightarrow> 'a list" where
  "set_delete x xs = removeAll x xs"

text \<open>The member set of a room as the Room Index has it: empty for a room with no entry.\<close>

definition members :: "server \<Rightarrow> string \<Rightarrow> string set" where
  "members s roomId = (case peersByRoom s roomId of None \<Rightarrow> {} | Some room \<Rightarrow> set room)"


section \<open>Handlers\<close>

definition sendMessage :: "ws \<Rightarrow> PeerMessage \<Rightarrow> action" where
  "sendMessage w msg = Send w msg"

text \<open>
  \<^verbatim>\<open>fetch\<close>: the upgrade creates the socket's data. In \<^verbatim>\<open>app.ts\<close> and in lines 235-434 of
  \<^verbatim>\<open>part_000\<close> the identifier is a fresh \<^verbatim>\<open>uuid.v4()\<close>; in lines 1-234 it is the \<^verbatim>\<open>uid\<close>
  cookie when that is present and non-empty.
\<close>

definition fetch_uid :: "string option \<Rightarrow> string \<Rightarrow> string" where
  "fetch_uid cookie fresh =
     (case cookie of None \<Rightarrow> fresh | Some c \<Rightarrow> if c = [] then fresh else c)"

definition upgrade :: "server \<Rightarrow> ws \<Rightarrow> string \<Rightarrow> nat \<Rightarrow> server" where
  "upgrade s w uid now =
     s\<lparr>data := (data s)(w := \<lparr>peer_id = uid, rooms = [], lastPing = now, code = None\<rparr>)\<rparr>"

definition open_ws :: "server \<Rightarrow> ws \<Rightarrow> server \<times> action list" where
  "open_ws s w =
     (let peerId = peer_id (data s w) in
      (s\<lparr>peerById := (peerById s)(peerId \<mapsto> w)\<rparr>, [sendMessage w (Init peerId)]))"

text \<open>
  The \<^verbatim>\<open>join\<close> case. \<^verbatim>\<open>uuid.validate\<close> belongs to the \<^verbatim>\<open>uuid\<close> package, not to this
  repository: it is the parameter \<open>validate\<close>.
\<close>

definition join :: "(string \<Rightarrow> bool) \<Rightarrow> server \<Rightarrow> ws \<Rightarrow> string \<Rightarrow> server \<times> action list" where
  "join validate s w roomId =
     (let peer = data s w; peerId = peer_id peer in
      if \<not> validate roomId then (s, [WsClose w ''Invalid ID''])
      else
        let peer' = peer\<lparr>rooms := set_add roomId (rooms peer)\<rparr>;
            room = (case peersByRoom s roomId of None \<Rightarrow> [] | Some r \<Rightarrow> r);
            room' = set_add peerId room
        in (s\<lparr>data := (data s)(w := peer'),
               topics := (topics s)(w := insert roomId (topics s w)),
               peersByRoom := (peersByRoom s)(roomId \<mapsto> room')\<rparr>,
            [Publish roomId (Joined room')]))"

text \<open>The \<^verbatim>\<open>signal\<close> case.\<close>

definition signal :: "server \<Rightarrow> ws \<Rightarrow> string \<Rightarrow> string \<Rightarrow> string \<Rightarrow> string \<Rightarrow> server \<times> action list" where
  "signal s w room senderPeerId receiverPeerId d =
     (if senderPeerId \<noteq> peer_id (data s w) then (s, [])
      else case peerById s receiverPeerId of
             None \<Rightarrow> (s, [])
           | Some receiver \<Rightarrow>
               (s, [sendMessage receiver (Signal room senderPeerId receiverPeerId d)]))"

text \<open>
  The \<^verbatim>\<open>handshake-begin\<close> case. \<open>random n\<close> is what the \<open>n\<close>-th call of \<^verbatim>\<open>Math.random()\<close>
  in this handler returns, read as a real number. The \<^verbatim>\<open>do ... while\<close> loop has no bound, so
  the function is partial: \<open>None\<close> is the loop that never leaves.
\<close>

partial_function (option) handshake_code :: "(nat \<Rightarrow> real) \<Rightarrow> nat \<Rightarrow> (int \<rightharpoonup> ws) \<Rightarrow> int option" where
  "handshake_code random n tbl =
     (let code = \<lfloor>random n * 9999\<rfloor> in
      if tbl code \<noteq> None then handshake_code random (Suc n) tbl else Some code)"

definition handshake_begin :: "server \<Rightarrow> ws \<Rightarrow> (nat \<Rightarrow> real) \<Rightarrow> (server \<times> action list) option" where
  "handshake_begin s w random =
     (case handshake_code random 0 (peerByHandshake s) of
        None \<Rightarrow> None
      | Some c \<Rightarrow>
          Some (s\<lparr>data := (data s)(w := (data s w)\<lparr>code := Some c\<rparr>),
                  peerByHandshake := (peerByHandshake s)(c \<mapsto> w)\<rparr>,
                [sendMessage w (HandshakeResponse (peer_id (data s w)) c)]))"

text \<open>The \<^verbatim>\<open>handshake-join\<close> case.\<close>

definition handshake_join :: "server \<Rightarrow> ws \<Rightarrow> int \<Rightarrow> server \<times> action list" where
  "handshake_join s w c =
     (case peerByHandshake s c of
        None \<Rightarrow> (s, [])
      | Some peer \<Rightarrow>
          (s\<lparr>peerByHandshake := (peerByHandshake s)(c := None)\<rparr>,
           [sendMessage w (HandshakeComplete (peer_id (data s w)) (peer_id (data s peer))),
            sendMessage peer (HandshakeComplete (peer_id (data s peer)) (peer_id (data s w)))]))"

text \<open>
  \<^verbatim>\<open>message\<close>: the activity stamp is written before the \<^verbatim>\<open>switch\<close>, for every frame.
  \<open>now\<close> is what \<^verbatim>\<open>Date.now()\<close> returns.
\<close>

definition stamp :: "server \<Rightarrow> ws \<Rightarrow> nat \<Rightarrow> server" where
  "stamp s w now = s\<lparr>data := (data s)(w := (data s w)\<lparr>lastPing := now\<rparr>)\<rparr>"

text \<open>\<^verbatim>\<open>message\<close> of \<^verbatim>\<open>app.ts\<close>: the handshake frames fall to \<^verbatim>\<open>default\<close>.\<close>

definition message_app :: "(string \<Rightarrow> bool) \<Rightarrow> server \<Rightarrow> ws \<Rightarrow> nat \<Rightarrow> PeerMessage \<Rightarrow> server \<times> action list" where
  "message_app validate s w now msg =
     (let s1 = stamp s w now in
      case msg of
        Join roomId \<Rightarrow> join validate s1 w roomId
      | Signal room senderPeerId receiverPeerId d \<Rightarrow> signal s1 w room senderPeerId receiverPeerId d
      | Ping \<Rightarrow> (s1, [])
      | _ \<Rightarrow> (s1, []))"

text \<open>\<^verbatim>\<open>message\<close> of \<^verbatim>\<open>part_000\<close> (both units).\<close>

definition message :: "(string \<Rightarrow> bool) \<Rightarrow> server \<Rightarrow> ws \<Rightarrow> nat \<Rightarrow> (nat \<Rightarrow> real) \<Rightarrow> PeerMessage \<Rightarrow> (server \<times> action list) option" where
  "message validate s w now random msg =
     (let s1 = stamp s w now in
      case msg of
        Join roomId \<Rightarrow> Some (join validate s1 w roomId)
      | Signal room senderPeerId receiverPeerId d \<Rightarrow>
          Some (signal s1 w room senderPeerId receiverPeerId d)
      | Ping \<Rightarrow> Some (s1, [])
      | HandshakeBegin \<Rightarrow> handshake_begin s1 w random
      | HandshakeJoin c \<Rightarrow> Some (handshake_join s1 w c)
      | _ \<Rightarrow> Some (s1, []))"

text \<open>
  \<^verbatim>\<open>close\<close>. One round of \<^verbatim>\<open>peer.rooms.forEach\<close> in lines 203-221 of \<^verbatim>\<open>part_000\<close>:
  \<^verbatim>\<open>room?.delete(peerId)\<close> does nothing for a room without entry, and then
  \<^verbatim>\<open>room?.size === 0\<close> is false.
\<close>

definition close_room :: "ws \<Rightarrow> string \<Rightarrow> string \<Rightarrow> server \<Rightarrow> server" where
  "close_room w peerId roomId s =
     (let s1 = (case peersByRoom s roomId of
                  None \<Rightarrow> s
                | Some room \<Rightarrow> s\<lparr>peersByRoom := (peersByRoom s)(roomId \<mapsto> set_delete peerId room)\<rparr>);
          deleteRoom = (case peersByRoom s1 roomId of None \<Rightarrow> False | Some room \<Rightarrow> length room = 0);
          s2 = s1\<lparr>topics := (topics s1)(w := topics s1 w - {roomId})\<rparr>
      in if deleteRoom then s2\<lparr>peersByRoom := (peersByRoom s2)(roomId := None)\<rparr> else s2)"

text \<open>One round of the same loop in \<^verbatim>\<open>app.ts\<close> (lines 118-122) and in lines 417-421 of \<^verbatim>\<open>part_000\<close>.\<close>

definition close_room_app :: "ws \<Rightarrow> string \<Rightarrow> string \<Rightarrow> server \<Rightarrow> server" where
  "close_room_app w peerId roomId s =
     (let s1 = (case peersByRoom s roomId of
                  None \<Rightarrow> s
                | Some room \<Rightarrow> s\<lparr>peersByRoom := (peersByRoom s)(roomId \<mapsto> set_delete peerId room)\<rparr>)
      in s1\<lparr>topics := (topics s1)(w := topics s1 w - {roomId})\<rparr>)"

text \<open>
  \<^verbatim>\<open>peerByHandshake.delete(peer.code)\<close>: a peer that never began a handshake has no
  \<^verbatim>\<open>code\<close> field, and deleting the key \<^verbatim>\<open>undefined\<close> removes nothing.
\<close>

definition delete_code :: "int option \<Rightarrow> (int \<rightharpoonup> ws) \<Rightarrow> (int \<rightharpoonup> ws)" where
  "delete_code c tbl = (case c of None \<Rightarrow> tbl | Some k \<Rightarrow> tbl(k := None))"

text \<open>\<^verbatim>\<open>close\<close> of \<^verbatim>\<open>part_000\<close>, lines 199-225.\<close>

definition close :: "server \<Rightarrow> ws \<Rightarrow> server" where
  "close s w =
     (let peer = data s w; peerId = peer_id peer;
          s1 = fold (close_room w peerId) (rooms peer) s;
          s2 = s1\<lparr>peerById := (peerById s1)(peerId := None)\<rparr>
      in s2\<lparr>peerByHandshake := delete_code (code peer) (peerByHandshake s2)\<rparr>)"

text \<open>\<^verbatim>\<open>close\<close> of \<^verbatim>\<open>part_000\<close>, lines 413-425.\<close>

definition close_2 :: "server \<Rightarrow> ws \<Rightarrow> server" where
  "close_2 s w =
     (let peer = data s w; peerId = peer_id peer;
          s1 = fold (close_room_app w peerId) (rooms peer) s;
          s2 = s1\<lparr>peerById := (peerById s1)(peerId := None)\<rparr>
      in s2\<lparr>peerByHandshake := delete_code (code peer) (peerByHandshake s2)\<rparr>)"

text \<open>\<^verbatim>\<open>close\<close> of \<^verbatim>\<open>app.ts\<close>, lines 114-124.\<close>

definition close_app :: "server \<Rightarrow> ws \<Rightarrow> server" where
  "close_app s w =
     (let peer = data s w; peerId = peer_id peer;
          s1 = fold (close_room_app w peerId) (rooms peer) s
      in s1\<lparr>peerById := (peerById s1)(peerId := None)\<rparr>)"

section \<open>Runs\<close>

text \<open>
  The callbacks run one at a time. An event is one callback: a connection (upgrade, then
  \<^verbatim>\<open>open\<close>), one inbound frame, or a disconnection. A run threads the state through a list of
  events and collects the runtime calls; it is \<open>None\<close> when a handler does not return.
  The handlers are those of one of the three revisions: \<open>AppTs\<close> is \<^verbatim>\<open>src/app.ts\<close>,
  \<open>Unit1\<close> is lines 1-234 of \<^verbatim>\<open>src/unnamed/part_000\<close>, \<open>Unit2\<close> is lines 235-434 of it.
\<close>

datatype revision = AppTs | Unit1 | Unit2

datatype event =
    Connect ws string nat
  | Message ws nat "nat \<Rightarrow> real" PeerMessage
  | Disconnect ws

fun message_of :: "revision \<Rightarrow> (string \<Rightarrow> bool) \<Rightarrow> server \<Rightarrow> ws \<Rightarrow> nat \<Rightarrow> (nat \<Rightarrow> real) \<Rightarrow> PeerMessage
    \<Rightarrow> (server \<times> action list) option" where
  "message_of AppTs validate s w now random msg = Some (message_app validate s w now msg)"
| "message_of Unit1 validate s w now random msg = message validate s w now random msg"
| "message_of Unit2 validate s w now random msg = message validate s w now random msg"

fun close_of :: "revision \<Rightarrow> server \<Rightarrow> ws \<Rightarrow> server" where
  "close_of AppTs s w = close_app s w"
| "close_of Unit1 s w = close s w"
| "close_of Unit2 s w = close_2 s w"

fun step :: "revision \<Rightarrow> (string \<Rightarrow> bool) \<Rightarrow> server \<Rightarrow> event \<Rightarrow> (server \<times> action list) option" where
  "step rv validate s (Connect w uid now) = Some (open_ws (upgrade s w uid now) w)"
| "step rv validate s (Message w now random msg) = message_of rv validate s w now random msg"
| "step rv validate s (Disconnect w) = Some (close_of rv s w, [])"

fun run :: "revision \<Rightarrow> (string \<Rightarrow> bool) \<Rightarrow> server \<Rightarrow> event list \<Rightarrow> (server \<times> action list) option" where
  "run rv validate s [] = Some (s, [])"
| "run rv validate s (e # es) =
     (case step rv validate s e of
        None \<Rightarrow> None
      | Some (s1, out1) \<Rightarrow>
          (case run rv validate s1 es of
             None \<Rightarrow> None
           | Some (s2, out2) \<Rightarrow> Some (s2, out1 @ out2)))"

text \<open>The codes a list of runtime calls hands out: those of its \<^verbatim>\<open>handshake-response\<close> frames.\<close>

fun issued :: "action list \<Rightarrow> int list" where
  "issued [] = []"
| "issued (Send w (HandshakeResponse yourId c) # out) = c # issued out"
| "issued (a # out) = issued out"



text \<open>No entry of the Room Index is an empty member set.\<close>

definition rooms_nonempty :: "server \<Rightarrow> bool" where
  "rooms_nonempty s = (\<forall>r. peersByRoom s r \<noteq> Some [])"

text \<open>The state a run from the empty server ends in.\<close>

definition state_after :: "revision \<Rightarrow> (string \<Rightarrow> bool) \<Rightarrow> event list \<Rightarrow> server" where
  "state_after rv validate es =
     (case run rv validate init_server es of None \<Rightarrow> init_server | Some (s, out) \<Rightarrow> s)"

subsection \<open>Sample inputs\<close>

text \<open>
  Concrete inputs for the closed instances of the theorems below: a stand-in for
  \<^verbatim>\<open>uuid.validate\<close> (the theorems hold for every \<open>validate\<close>), a room identifier, draws of
  \<^verbatim>\<open>Math.random()\<close>, and two states reached from the empty server. Every draw of
  \<open>draws_low\<close> gives the code 1; the draws of \<open>draws_three\<close> give 1, 4999 and then 7499;
  every draw of \<open>draws_for k\<close> gives the code \<open>k\<close>. \<open>begin_frames n\<close> is \<open>n\<close>
  \<^verbatim>\<open>handshake-begin\<close> frames whose draws give the codes 0 to \<open>n - 1\<close>.
\<close>

definition sample_validate :: "string \<Rightarrow> bool" where
  "sample_validate r = (length r = 36)"

definition roomR :: string where
  "roomR = ''123e4567-e89b-42d3-a456-426614174000''"

definition draws_low :: "nat \<Rightarrow> real" where
  "draws_low n = 3 / 20000"

definition draws_three :: "nat \<Rightarrow> real" where
  "draws_three n = (if n = 0 then 3 / 20000 else if n = 1 then 1 / 2 else 3 / 4)"

definition draws_for :: "nat \<Rightarrow> nat \<Rightarrow> real" where
  "draws_for k n = (real k + 1 / 2) / 9999"


definition room_of_A :: server where
  "room_of_A = state_after AppTs sample_validate
     [Connect 0 ''A'' 0, Message 0 1 draws_low (Join roomR), Connect 1 ''B'' 2]"

definition begun_by_A :: server where
  "begun_by_A = state_after Unit1 sample_validate
     [Connect 0 ''A'' 0, Message 0 1 draws_low HandshakeBegin, Connect 1 ''B'' 2]"

section \<open>Basic facts\<close>

lemmas eval_defs = sample_validate_def roomR_def init_server_def no_peer_def
  upgrade_def open_ws_def message_app_def message_def join_def signal_def stamp_def
  sendMessage_def set_add_def members_def Let_def handshake_join_def handshake_begin_def
  draws_low_def state_after_def

lemmas run_defs = eval_defs close_def close_room_def close_app_def close_room_app_def close_2_def
  delete_code_def set_delete_def handshake_code.simps draws_three_def

lemma stamp_simps:
  "peersByRoom (stamp s w now) = peersByRoom s"
  "peerById (stamp s w now) = peerById s"
  "peerByHandshake (stamp s w now) = peerByHandshake s"
  "topics (stamp s w now) = topics s"
  "peer_id (data (stamp s w now) v) = peer_id (data s v)"
  "rooms (data (stamp s w now) v) = rooms (data s v)"
  "code (data (stamp s w now) v) = code (data s v)"
  by (simp_all add: stamp_def)


lemma set_add_nonempty: "set_add x xs \<noteq> []"
  by (auto simp: set_add_def)

lemma join_valid:
  assumes "validate roomId"
  shows "join validate s w roomId =
     (s\<lparr>data := (data s)(w := (data s w)\<lparr>rooms := set_add roomId (rooms (data s w))\<rparr>),
        topics := (topics s)(w := insert roomId (topics s w)),
        peersByRoom := (peersByRoom s)(roomId \<mapsto>
           set_add (peer_id (data s w)) (case peersByRoom s roomId of None \<Rightarrow> [] | Some r \<Rightarrow> r))\<rparr>,
      [Publish roomId (Joined
           (set_add (peer_id (data s w)) (case peersByRoom s roomId of None \<Rightarrow> [] | Some r \<Rightarrow> r)))])"
  using assms by (simp add: join_def Let_def)

lemma issued_append: "issued (xs @ ys) = issued xs @ issued ys"
  by (induction xs rule: issued.induct) simp_all


lemma run_Cons_Some:
  assumes "run rv validate s (e # es) = Some (s', out)"
  obtains s1 out1 out2 where "step rv validate s e = Some (s1, out1)"
    and "run rv validate s1 es = Some (s', out2)" and "out = out1 @ out2"
  using assms by (auto split: option.splits)

lemma message_of_part: "rv \<noteq> AppTs \<Longrightarrow> message_of rv = message"
  by (cases rv) (auto simp: fun_eq_iff)

subsection \<open>The code-drawing loop\<close>

lemma handshake_code_Some:
  assumes "handshake_code random n tbl = Some c"
  shows "tbl c = None \<and> (\<exists>k\<ge>n. c = \<lfloor>random k * 9999\<rfloor>)"
proof (rule handshake_code.raw_induct
    [where P = "\<lambda>random n tbl c. tbl c = None \<and> (\<exists>k\<ge>n. c = \<lfloor>random k * 9999\<rfloor>)", OF _ assms])
  fix f :: "(nat \<Rightarrow> real) \<Rightarrow> nat \<Rightarrow> (int \<rightharpoonup> ws) \<Rightarrow> int option"
  fix random n tbl c
  assume IH: "\<And>random n tbl c. f random n tbl = Some c \<Longrightarrow>
                tbl c = None \<and> (\<exists>k\<ge>n. c = \<lfloor>random k * 9999\<rfloor>)"
    and body: "(let code = \<lfloor>random n * 9999\<rfloor>
                in if tbl code \<noteq> None then f random (Suc n) tbl else Some code) = Some c"
  show "tbl c = None \<and> (\<exists>k\<ge>n. c = \<lfloor>random k * 9999\<rfloor>)"
  proof (cases "tbl \<lfloor>random n * 9999\<rfloor> = None")
    case True
    with body show ?thesis by (auto simp: Let_def)
  next
    case False
    with body have "f random (Suc n) tbl = Some c" by (simp add: Let_def)
    from IH[OF this] obtain k where "tbl c = None" "Suc n \<le> k" "c = \<lfloor>random k * 9999\<rfloor>"
      by blast
    then have "n \<le> k \<and> c = \<lfloor>random k * 9999\<rfloor>" by simp
    with \<open>tbl c = None\<close> show ?thesis by blast
  qed
qed




lemma handshake_begin_Some:
  assumes "handshake_begin s w random = Some (s', out)"
  shows "\<exists>c k. c = \<lfloor>random k * 9999\<rfloor> \<and> peerByHandshake s c = None
      \<and> s' = s\<lparr>data := (data s)(w := (data s w)\<lparr>code := Some c\<rparr>),
                peerByHandshake := (peerByHandshake s)(c \<mapsto> w)\<rparr>
      \<and> out = [Send w (HandshakeResponse (peer_id (data s w)) c)]"
proof (cases "handshake_code random 0 (peerByHandshake s)")
  case None
  with assms show ?thesis by (simp add: handshake_begin_def)
next
  case (Some c)
  from handshake_code_Some[OF Some] obtain k where "peerByHandshake s c = None" "c = \<lfloor>random k * 9999\<rfloor>"
    by blast
  with assms Some show ?thesis by (auto simp: handshake_begin_def sendMessage_def)
qed


lemma draws_for_unit: "k < 9999 \<Longrightarrow> 0 \<le> draws_for k n \<and> draws_for k n < 1"
  by (simp add: draws_for_def)


subsection \<open>The Pairing Table along a run\<close>

lemma close_room_handshake:
  "peerByHandshake (close_room w p r s) = peerByHandshake s"
  "peerByHandshake (close_room_app w p r s) = peerByHandshake s"
  by (simp_all add: close_room_def close_room_app_def Let_def split: option.splits)

lemma fold_close_room_handshake:
  "peerByHandshake (fold (close_room w p) rs s) = peerByHandshake s"
  "peerByHandshake (fold (close_room_app w p) rs s) = peerByHandshake s"
  by (induction rs arbitrary: s) (simp_all add: close_room_handshake)

lemma close_of_keeps_absent:
  "peerByHandshake s c = None \<Longrightarrow> peerByHandshake (close_of rv s w) c = None"
  by (cases rv)
    (auto simp: close_def close_2_def close_app_def Let_def delete_code_def
      fold_close_room_handshake split: option.splits)

lemma message_app_handshake:
  "peerByHandshake (fst (message_app validate s w now msg)) = peerByHandshake s"
  "issued (snd (message_app validate s w now msg)) = []"
  by (cases msg; simp add: message_app_def join_def signal_def sendMessage_def stamp_simps Let_def
      split: option.splits)+

lemma message_keeps_absent:
  assumes "peerByHandshake s c = None" and "message validate s w now random msg = Some (s', out)"
    and "c \<notin> set (issued out)"
  shows "peerByHandshake s' c = None"
proof (cases msg)
  case HandshakeBegin
  with assms have "handshake_begin (stamp s w now) w random = Some (s', out)"
    by (simp add: message_def)
  from handshake_begin_Some[OF this] assms(1,3) show ?thesis
    by (auto simp: stamp_simps)
qed (use assms in \<open>auto simp: message_def join_def signal_def handshake_join_def
      stamp_simps Let_def split: if_splits option.splits\<close>)

lemma step_keeps_absent:
  assumes "peerByHandshake s c = None" and "step rv validate s e = Some (s', out)"
    and "c \<notin> set (issued out)"
  shows "peerByHandshake s' c = None"
proof (cases e)
  case (Connect w uid now)
  with assms show ?thesis by (auto simp: open_ws_def upgrade_def Let_def)
next
  case (Message w now random msg)
  show ?thesis
  proof (cases "rv = AppTs")
    case True
    with assms Message have "s' = fst (message_app validate s w now msg)" by auto
    with assms(1) show ?thesis by (simp add: message_app_handshake)
  next
    case False
    with assms Message have "message validate s w now random msg = Some (s', out)"
      by (simp add: message_of_part)
    from message_keeps_absent[OF assms(1) this assms(3)] show ?thesis .
  qed
next
  case (Disconnect w)
  with assms close_of_keeps_absent show ?thesis by auto
qed

lemma run_keeps_absent:
  "peerByHandshake s c = None \<Longrightarrow> run rv validate s es = Some (s', out) \<Longrightarrow> c \<notin> set (issued out)
   \<Longrightarrow> peerByHandshake s' c = None"
proof (induction es arbitrary: s s' out)
  case Nil
  then show ?case by simp
next
  case (Cons e es)
  from Cons.prems(2) obtain s1 out1 out2 where
    st: "step rv validate s e = Some (s1, out1)" and rn: "run rv validate s1 es = Some (s', out2)"
    and out: "out = out1 @ out2"
    by (rule run_Cons_Some)
  from Cons.prems(3) out have n1: "c \<notin> set (issued out1)" and n2: "c \<notin> set (issued out2)"
    by (simp_all add: issued_append)
  from step_keeps_absent[OF Cons.prems(1) st n1] have "peerByHandshake s1 c = None" .
  from Cons.IH[OF this rn n2] show ?case .
qed



subsection \<open>The Room Index along a run of \<^verbatim>\<open>part_000\<close>, lines 1-234\<close>

lemma close_room_nonempty: "rooms_nonempty s \<Longrightarrow> rooms_nonempty (close_room w p r s)"
  by (auto simp: rooms_nonempty_def close_room_def Let_def split: option.splits if_splits)

lemma fold_close_room_nonempty: "rooms_nonempty s \<Longrightarrow> rooms_nonempty (fold (close_room w p) rs s)"
  by (induction rs arbitrary: s) (simp_all add: close_room_nonempty)

lemma close_nonempty: "rooms_nonempty s \<Longrightarrow> rooms_nonempty (close s w)"
proof -
  assume "rooms_nonempty s"
  then have "rooms_nonempty (fold (close_room w (peer_id (data s w))) (rooms (data s w)) s)"
    by (rule fold_close_room_nonempty)
  then show ?thesis by (simp add: close_def Let_def rooms_nonempty_def)
qed

lemma join_nonempty: "rooms_nonempty s \<Longrightarrow> rooms_nonempty (fst (join validate s w r))"
  using set_add_nonempty[of "peer_id (data s w)"]
  by (auto simp: rooms_nonempty_def join_def Let_def simp del: not_Cons_self2)

lemma message_nonempty:
  assumes "rooms_nonempty s" and "message validate s w now random msg = Some (s', out)"
  shows "rooms_nonempty s'"
proof -
  have st: "rooms_nonempty (stamp s w now)"
    using assms(1) by (simp add: rooms_nonempty_def stamp_simps)
  show ?thesis
  proof (cases msg)
    case (Join r)
    with assms have "s' = fst (join validate (stamp s w now) w r)"
      by (simp add: message_def)
    with join_nonempty[OF st] show ?thesis by simp
  next
    case HandshakeBegin
    with assms have "handshake_begin (stamp s w now) w random = Some (s', out)"
      by (simp add: message_def)
    from handshake_begin_Some[OF this] st show ?thesis
      by (auto simp: rooms_nonempty_def)
  qed (use assms st in \<open>auto simp: message_def signal_def handshake_join_def
        rooms_nonempty_def Let_def split: if_splits option.splits\<close>)
qed

lemma step_nonempty:
  assumes "rooms_nonempty s" and "step Unit1 validate s e = Some (s', out)"
  shows "rooms_nonempty s'"
proof (cases e)
  case (Connect w uid now)
  with assms show ?thesis by (auto simp: rooms_nonempty_def open_ws_def upgrade_def Let_def)
next
  case (Message w now random msg)
  with assms message_nonempty show ?thesis by auto
next
  case (Disconnect w)
  with assms close_nonempty show ?thesis by auto
qed

lemma run_nonempty:
  "rooms_nonempty s \<Longrightarrow> run Unit1 validate s es = Some (s', out) \<Longrightarrow> rooms_nonempty s'"
proof (induction es arbitrary: s s' out)
  case Nil
  then show ?case by simp
next
  case (Cons e es)
  from Cons.prems(2) obtain s1 out1 out2 where
    st: "step Unit1 validate s e = Some (s1, out1)" and rn: "run Unit1 validate s1 es = Some (s', out2)"
    by (rule run_Cons_Some)
  from Cons.IH[OF step_nonempty[OF Cons.prems(1) st] rn] show ?case .
qed

lemma room_index_nonempty:
  assumes "run Unit1 validate init_server es = Some (s, out)"
  shows "(r \<in> dom (peersByRoom s)) = (members s r \<noteq> {})"
proof -
  have "rooms_nonempty init_server" by (simp add: rooms_nonempty_def init_server_def)
  from run_nonempty[OF this assms] show ?thesis
    by (auto simp: rooms_nonempty_def members_def split: option.splits)
qed

section \<open>Rooms\<close>





text \<open>
  C10. When the peer's identifier is already in the member set of room R and R is already in
  the peer's room set, a further valid \<^verbatim>\<open>join\<close> for R leaves the whole Room Index and every
  peer's room set as they were, and still publishes the \<^verbatim>\<open>joined\<close> frame with the full
  roster on R's topic.
\<close>

theorem join_idempotent:
  assumes "validate roomId" and "peersByRoom s roomId = Some room"
    and "peer_id (data s w) \<in> set room" and "roomId \<in> set (rooms (data s w))"
  shows "\<exists>s'. message validate s w now random (Join roomId) = Some (s', [Publish roomId (Joined room)])
    \<and> message_app validate s w now (Join roomId) = (s', [Publish roomId (Joined room)])
    \<and> peersByRoom s' = peersByRoom s
    \<and> members s' roomId = members s roomId
    \<and> (\<forall>v. rooms (data s' v) = rooms (data s v))"
proof -
  have r: "set_add (peer_id (data s w)) room = room"
    using assms(3) by (simp add: set_add_def)
  have q: "set_add roomId (rooms (data s w)) = rooms (data s w)"
    using assms(4) by (simp add: set_add_def)
  have u: "(peersByRoom s)(roomId \<mapsto> room) = peersByRoom s"
    using assms(2) by (rule map_upd_triv)
  show ?thesis using assms(1)
    by (simp add: message_def message_app_def join_valid stamp_simps assms(2) r q u members_def Let_def)
qed

theorem join_idempotent_witness:
  "sample_validate roomR \<and> peersByRoom room_of_A roomR = Some [''A'']
   \<and> peer_id (data room_of_A 0) \<in> set [''A''] \<and> roomR \<in> set (rooms (data room_of_A 0))
   \<and> snd (message_app sample_validate room_of_A 0 5 (Join roomR)) = [Publish roomR (Joined [''A''])]
   \<and> peersByRoom (fst (message_app sample_validate room_of_A 0 5 (Join roomR))) = peersByRoom room_of_A"
  using join_idempotent [of sample_validate roomR room_of_A "[''A'']" 0 5 draws_low]
  by (simp add: room_of_A_def eval_defs)

text \<open>
  C1. The Room Index has an entry for a room exactly when the room's member set is not
  empty. The \<^verbatim>\<open>close\<close> of lines 199-225 of \<^verbatim>\<open>part_000\<close> deletes the entry with the last
  member (lemma \<open>room_index_nonempty\<close> above: the property holds after every run of that
  unit). The \<^verbatim>\<open>close\<close> of \<^verbatim>\<open>app.ts\<close> and the \<^verbatim>\<open>close\<close> of lines 413-425 of \<^verbatim>\<open>part_000\<close> only
  remove the member: after one peer connects, joins a room and disconnects, the room is
  still a key of the Room Index, with the empty member set.
\<close>

theorem close_app_leaves_empty_room:
  "peersByRoom (state_after AppTs sample_validate
      [Connect 0 ''A'' 0, Message 0 1 draws_low (Join roomR), Disconnect 0]) roomR = Some []
   \<and> peersByRoom (state_after Unit2 sample_validate
      [Connect 0 ''A'' 0, Message 0 1 draws_low (Join roomR), Disconnect 0]) roomR = Some []
   \<and> peersByRoom (state_after Unit1 sample_validate
      [Connect 0 ''A'' 0, Message 0 1 draws_low (Join roomR), Disconnect 0]) roomR = None"
  by (simp add: run_defs)

section \<open>Signal relay\<close>

text \<open>
  C4. A \<^verbatim>\<open>signal\<close> frame whose \<^verbatim>\<open>senderPeerId\<close> is the identifier of the sending socket and
  whose \<^verbatim>\<open>receiverPeerId\<close> is a key of the Connection Registry makes exactly one runtime
  call: a send of the same frame (room, sender, receiver and data as received) to the
  socket registered under the receiver's identifier. When the sender does not match, or the
  receiver is not registered, the handler makes no runtime call at all: nothing is sent to
  any socket, the sender included. \<^verbatim>\<open>app.ts\<close> and \<^verbatim>\<open>part_000\<close> agree.
\<close>

theorem signal_forwarding:
  "(senderPeerId = peer_id (data s w) \<and> peerById s receiverPeerId = Some receiver \<longrightarrow>
      message validate s w now random (Signal room senderPeerId receiverPeerId d)
        = Some (stamp s w now, [Send receiver (Signal room senderPeerId receiverPeerId d)])
    \<and> message_app validate s w now (Signal room senderPeerId receiverPeerId d)
        = (stamp s w now, [Send receiver (Signal room senderPeerId receiverPeerId d)]))
 \<and> (senderPeerId \<noteq> peer_id (data s w) \<or> peerById s receiverPeerId = None \<longrightarrow>
      message validate s w now random (Signal room senderPeerId receiverPeerId d)
        = Some (stamp s w now, [])
    \<and> message_app validate s w now (Signal room senderPeerId receiverPeerId d)
        = (stamp s w now, []))"
  by (auto simp: message_def message_app_def signal_def sendMessage_def stamp_simps Let_def)

theorem signal_forwarding_witness:
  "peer_id (data room_of_A 0) = ''A'' \<and> peerById room_of_A ''B'' = Some 1
   \<and> peerById room_of_A ''C'' = None
   \<and> message sample_validate room_of_A 0 5 draws_low (Signal roomR ''A'' ''B'' ''offer'')
       = Some (stamp room_of_A 0 5, [Send 1 (Signal roomR ''A'' ''B'' ''offer'')])
   \<and> message sample_validate room_of_A 0 5 draws_low (Signal roomR ''B'' ''A'' ''offer'')
       = Some (stamp room_of_A 0 5, [])
   \<and> message sample_validate room_of_A 0 5 draws_low (Signal roomR ''A'' ''C'' ''offer'')
       = Some (stamp room_of_A 0 5, [])"
  using signal_forwarding [of "''A''" room_of_A 0 "''B''" 1 sample_validate 5 draws_low roomR "''offer''"]
    signal_forwarding [of "''B''" room_of_A 0 "''A''" 0 sample_validate 5 draws_low roomR "''offer''"]
    signal_forwarding [of "''A''" room_of_A 0 "''C''" 0 sample_validate 5 draws_low roomR "''offer''"]
  by (simp add: room_of_A_def state_after_def init_server_def no_peer_def upgrade_def open_ws_def
      message_app_def join_def stamp_def sendMessage_def set_add_def Let_def sample_validate_def
      roomR_def)

section \<open>Pairing codes\<close>

text \<open>
  C6. When code \<open>c\<close> is pending for \<open>owner\<close>, a \<^verbatim>\<open>handshake-join\<close> frame carrying \<open>c\<close> sends
  one \<^verbatim>\<open>handshake-complete\<close> frame to the joiner and then one to the owner, each with its own
  identifier as \<^verbatim>\<open>yourId\<close> and the other's as \<^verbatim>\<open>otherId\<close>, and deletes \<open>c\<close> from the Pairing
  Table. After any further events in which \<open>c\<close> is not issued again, a \<^verbatim>\<open>handshake-join\<close>
  carrying \<open>c\<close> from any socket makes no runtime call; its case of the \<^verbatim>\<open>switch\<close> changes
  nothing, so the frame leaves the state as it was up to the sender's activity stamp.
\<close>

theorem pairing_code_one_shot:
  assumes "peerByHandshake s c = Some owner"
  shows "\<exists>s1. message validate s w now random (HandshakeJoin c)
         = Some (s1, [Send w (HandshakeComplete (peer_id (data s w)) (peer_id (data s owner))),
                      Send owner (HandshakeComplete (peer_id (data s owner)) (peer_id (data s w)))])
     \<and> peerByHandshake s1 = (peerByHandshake s)(c := None)
     \<and> (\<forall>rv es s2 out v now' random'.
           run rv validate s1 es = Some (s2, out) \<and> c \<notin> set (issued out) \<longrightarrow>
             handshake_join s2 v c = (s2, [])
           \<and> message validate s2 v now' random' (HandshakeJoin c) = Some (stamp s2 v now', []))"
proof -
  let ?s1 = "(stamp s w now)\<lparr>peerByHandshake := (peerByHandshake s)(c := None)\<rparr>"
  have m: "message validate s w now random (HandshakeJoin c)
         = Some (?s1, [Send w (HandshakeComplete (peer_id (data s w)) (peer_id (data s owner))),
                      Send owner (HandshakeComplete (peer_id (data s owner)) (peer_id (data s w)))])"
    using assms by (simp add: message_def handshake_join_def sendMessage_def stamp_simps Let_def)
  have a: "peerByHandshake ?s1 c = None" by simp
  have later: "handshake_join s2 v c = (s2, [])
           \<and> message validate s2 v now' random' (HandshakeJoin c) = Some (stamp s2 v now', [])"
    if "run rv validate ?s1 es = Some (s2, out)" and "c \<notin> set (issued out)"
    for rv es s2 out v now' random'
  proof -
    from run_keeps_absent[OF a that] have "peerByHandshake s2 c = None" .
    then show ?thesis by (simp add: message_def handshake_join_def stamp_simps Let_def)
  qed
  show ?thesis
    by (rule exI[of _ ?s1]) (use m later in auto)
qed

theorem pairing_code_one_shot_witness:
  "peerByHandshake begun_by_A 1 = Some 0
   \<and> map_option snd (run Unit1 sample_validate begun_by_A
        [Message 1 5 draws_low (HandshakeJoin 1), Message 0 6 draws_low Ping,
         Message 1 7 draws_low (HandshakeJoin 1), Message 0 8 draws_low (HandshakeJoin 1)])
       = Some [Send 1 (HandshakeComplete ''B'' ''A''), Send 0 (HandshakeComplete ''A'' ''B'')]"
  using pairing_code_one_shot [of begun_by_A 1 0 sample_validate 1 5 draws_low]
  by (simp add: begun_by_A_def run_defs)


text \<open>
  C9. A socket that sends \<^verbatim>\<open>handshake-join\<close> with a code pending for itself is sent two
  \<^verbatim>\<open>handshake-complete\<close> frames, each with its own identifier as both \<^verbatim>\<open>yourId\<close> and
  \<^verbatim>\<open>otherId\<close>, and the code is deleted from the Pairing Table.
\<close>

theorem self_pairing:
  assumes "peerByHandshake s c = Some w"
  shows "\<exists>s'. message validate s w now random (HandshakeJoin c)
        = Some (s', [Send w (HandshakeComplete (peer_id (data s w)) (peer_id (data s w))),
                     Send w (HandshakeComplete (peer_id (data s w)) (peer_id (data s w)))])
    \<and> peerByHandshake s' = (peerByHandshake s)(c := None)
    \<and> peerByHandshake s' c = None"
  using assms by (simp add: message_def handshake_join_def sendMessage_def stamp_simps Let_def)


theorem self_pairing_witness:
  "peerByHandshake begun_by_A 1 = Some 0
   \<and> map_option snd (message sample_validate begun_by_A 0 5 draws_low (HandshakeJoin 1))
       = Some [Send 0 (HandshakeComplete ''A'' ''A''), Send 0 (HandshakeComplete ''A'' ''A'')]
   \<and> peerByHandshake (state_after Unit1 sample_validate
        [Connect 0 ''A'' 0, Message 0 1 draws_low HandshakeBegin, Connect 1 ''B'' 2,
         Message 0 5 draws_low (HandshakeJoin 1)]) 1 = None"
  using self_pairing [of begun_by_A 1 0 sample_validate 5 draws_low]
  by (simp add: begun_by_A_def run_defs)









text \<open>
  C2. \<^verbatim>\<open>close\<close> deletes the one code recorded in the peer's \<^verbatim>\<open>code\<close> field, the last one
  issued to it (lemmas \<open>close_deletes_recorded_code\<close> and \<open>single_code_orphan_not_joinable\<close>
  below), and not the codes issued to the peer before that. In both units of \<^verbatim>\<open>part_000\<close>:
  peer A is issued the codes 1 and 4999 and disconnects; peer B then sends \<^verbatim>\<open>handshake-join\<close>
  with the code 1 and is sent a \<^verbatim>\<open>handshake-complete\<close> frame naming A.
\<close>

theorem orphaned_code_still_joinable:
  "map_option snd (run Unit1 sample_validate init_server
      [Connect 0 ''A'' 0, Message 0 1 draws_low HandshakeBegin, Message 0 2 draws_three HandshakeBegin,
       Disconnect 0, Connect 1 ''B'' 3, Message 1 4 draws_low (HandshakeJoin 1)])
   = Some [Send 0 (Init ''A''), Send 0 (HandshakeResponse ''A'' 1),
           Send 0 (HandshakeResponse ''A'' 4999), Send 1 (Init ''B''),
           Send 1 (HandshakeComplete ''B'' ''A''), Send 0 (HandshakeComplete ''A'' ''B'')]
   \<and> map_option snd (run Unit2 sample_validate init_server
      [Connect 0 ''A'' 0, Message 0 1 draws_low HandshakeBegin, Message 0 2 draws_three HandshakeBegin,
       Disconnect 0, Connect 1 ''B'' 3, Message 1 4 draws_low (HandshakeJoin 1)])
   = Some [Send 0 (Init ''A''), Send 0 (HandshakeResponse ''A'' 1),
           Send 0 (HandshakeResponse ''A'' 4999), Send 1 (Init ''B''),
           Send 1 (HandshakeComplete ''B'' ''A''), Send 0 (HandshakeComplete ''A'' ''B'')]"
  by (simp add: run_defs)

lemma close_deletes_recorded_code:
  "code (data s w) = Some c \<Longrightarrow> peerByHandshake (close s w) c = None"
  "code (data s w) = Some c \<Longrightarrow> peerByHandshake (close_2 s w) c = None"
  by (simp_all add: close_def close_2_def Let_def delete_code_def)

lemma single_code_orphan_not_joinable:
  assumes "handshake_begin s w random = Some (s1, out1)"
  shows "\<exists>c. out1 = [Send w (HandshakeResponse (peer_id (data s w)) c)]
     \<and> peerByHandshake (close s1 w) c = None
     \<and> handshake_join (close s1 w) v c = (close s1 w, [])"
proof -
  from handshake_begin_Some[OF assms] obtain c where
    o: "out1 = [Send w (HandshakeResponse (peer_id (data s w)) c)]"
    and d: "code (data s1 w) = Some c"
    by auto
  from close_deletes_recorded_code(1)[OF d] have "peerByHandshake (close s1 w) c = None" .
  with o show ?thesis by (simp add: handshake_join_def)
qed


end
